theory Spec2Isabelle
  imports Main "HOL-Library.Sublist"
begin

section \<open>Data model\<close>

text \<open>
  The embedding follows \<^verbatim>\<open>server/imgapisrv.go\<close>. Go strings are byte sequences and are
  modelled as \<^typ>\<open>string\<close>. The packages \<^verbatim>\<open>common\<close> and \<^verbatim>\<open>errorcodes\<close> are imported by
  the file but their declarations are not part of it; only the fields and constants the
  file uses are modelled.
\<close>

text \<open>
  Modelled from the spec: the declaration of \<^verbatim>\<open>common.Configuration\<close> is missing. The source
  reads \<^verbatim>\<open>configuration.Datadir\<close>, \<^verbatim>\<open>configuration.Port\<close>, \<^verbatim>\<open>configuration.Userdb[i].Name\<close> and
  \<^verbatim>\<open>configuration.Userdb[i].Password\<close>; the spec calls it a data directory path, a listen
  port and an ordered list of user credential entries (name, password).
\<close>

record UserEntry =
  Name :: string
  Password :: string

record Configuration =
  Datadir :: string
  Port :: int
  Userdb :: "UserEntry list"

text \<open>
  Modelled from the spec: the constants of package \<^verbatim>\<open>errorcodes\<close> are missing. The source
  uses six of them as HTTP status arguments; they are kept symbolic.
\<close>

datatype errorcode =
  InvalidParameter
  | ResourceNotFound
  | InternalError
  | UnauthorizedError
  | AccountDoesNotExist
  | InsufficientServerVersion

text \<open>The operation handlers the dispatcher delegates to (defined elsewhere in the package).\<close>

datatype handler =
  ListImages
  | GetImage
  | GetImageIcon
  | GetImageFile
  | DeleteImage
  | DeleteImageIcon
  | CreateImage
  | AddImageIcon
  | AddImageFile
  | ActivateImage
  | UpdateImage
  | DisableImage
  | EnableImage

text \<open>\<^verbatim>\<open>url.Values\<close> is \<^verbatim>\<open>map[string][]string\<close>.\<close>

type_synonym Values = "string \<Rightarrow> string list option"

text \<open>
  The error value of \<^verbatim>\<open>os.Stat\<close>: what \<^verbatim>\<open>os.IsNotExist\<close> says about it and the text that
  \<^verbatim>\<open>%v\<close> prints. The file system is a parameter \<open>stat\<close> giving the error of \<^verbatim>\<open>os.Stat\<close> for a
  path, \<open>None\<close> being \<^verbatim>\<open>err == nil\<close> (the path exists).
\<close>

datatype oserror = OsError (IsNotExist: bool) (ErrorText: string)

text \<open>
  The part of \<^verbatim>\<open>*http.Request\<close> the dispatcher reads: \<^verbatim>\<open>r.Method\<close>, \<^verbatim>\<open>r.URL.Path\<close>, the result
  of \<^verbatim>\<open>r.BasicAuth()\<close> (\<open>None\<close> when \<^verbatim>\<open>ok\<close> is false) and the result of
  \<^verbatim>\<open>url.ParseQuery(r.URL.RawQuery)\<close> (\<open>Inl\<close> the error, for instance on the raw query
  \<^verbatim>\<open>%zz\<close>). Both are standard-library functions of the request alone.
\<close>

record Request =
  Method :: string
  Path :: string
  BasicAuth :: "(string \<times> string) option"
  Query :: "string + Values"

text \<open>
  What a handler invocation does, in order: log lines, the calls on the response writer
  (\<^verbatim>\<open>Header().Set\<close>, \<^verbatim>\<open>WriteHeader\<close>, \<^verbatim>\<open>Write\<close> of the marshalled body), delegations to an
  operation handler with its path argument, and a run-time panic. The body is kept as the
  key/value content that is marshalled, keys in the order \<^verbatim>\<open>json.MarshalIndent\<close> emits them.
\<close>

datatype event =
  Log string
  | SetHeader string string
  | WriteHeader errorcode
  | Write "(string \<times> string) list"
  | Call handler string
  | Panic string

section \<open>The response envelope\<close>

definition sendResponse :: "errorcode \<Rightarrow> (string \<times> string) list option \<Rightarrow> event list" where
  "sendResponse code content =
     [SetHeader ''Server'' ''Norbye Public Images Repo'', WriteHeader code] @
     (case content of
        None \<Rightarrow> []
      | Some c \<Rightarrow> [SetHeader ''Content-Type'' ''application/json; charset=utf-8'', Write c])"

text \<open>The map literal every error reply passes to \<open>sendResponse\<close>.\<close>

definition errorBody :: "string \<Rightarrow> string \<Rightarrow> (string \<times> string) list option" where
  "errorBody code message = Some [(''code'', code), (''message'', message)]"

section \<open>The URL parser\<close>

text \<open>\<^verbatim>\<open>strings.Index\<close>: the index of the first instance of \<open>sep\<close> in \<open>s\<close>, or \<open>-1\<close>.\<close>

fun strings_Index :: "string \<Rightarrow> string \<Rightarrow> int" where
  "strings_Index [] sep = (if sep = [] then 0 else - 1)"
| "strings_Index (c # t) sep =
     (if prefix sep (c # t) then 0
      else (let i = strings_Index t sep in if i = - 1 then - 1 else i + 1))"

text \<open>
  \<^verbatim>\<open>splitImagesUrl\<close> returns \<^verbatim>\<open>(uuid, file, err)\<close>; callers read \<^verbatim>\<open>uuid\<close> and \<^verbatim>\<open>file\<close> only when
  \<^verbatim>\<open>err\<close> is nil, so the result is the error text or the pair.
\<close>

definition splitImagesUrl :: "string \<Rightarrow> string + (string \<times> string)" where
  "splitImagesUrl url =
     (if strings_Index url ''/images/'' \<noteq> 0 then Inl ''Invalid url''
      else
        (let uuid = drop 8 url in
         if length uuid = 0 then Inl ''Invalid url''
         else
           (let index = strings_Index uuid ''/'' in
            if index \<noteq> - 1 then Inr (take (nat index) uuid, drop (nat index) uuid)
            else Inr (uuid, ''''))))"

section \<open>GET, DELETE, POST and PUT routing\<close>

definition doHandleGetImages ::
  "Configuration \<Rightarrow> (string \<Rightarrow> oserror option) \<Rightarrow> Request \<Rightarrow> Values \<Rightarrow> event list" where
  "doHandleGetImages configuration stat r params =
     (if Path r = ''/images'' then [Call ListImages (Datadir configuration)]
      else
        (case splitImagesUrl (Path r) of
           Inl err \<Rightarrow> sendResponse InvalidParameter (errorBody ''InvalidParameter'' err)
         | Inr (uuid, file) \<Rightarrow>
             (let filename = Datadir configuration @ ''/'' @ uuid in
              (case stat filename of
                 None \<Rightarrow>
                   sendResponse ResourceNotFound
                     (errorBody ''ResourceNotFound''
                        (''Failed to locate '' @ filename @ '': <nil>''))
               | Some err \<Rightarrow>
                   if length file = 0 then [Call GetImage filename]
                   else if file = ''/icon'' then [Call GetImageIcon filename]
                   else if file = ''/file'' then [Call GetImageFile filename]
                   else
                     sendResponse ResourceNotFound
                       (errorBody ''ResourceNotFound'' ''Requested resource does not exist'')))))"

definition doHandleDeleteImages ::
  "Configuration \<Rightarrow> Request \<Rightarrow> Values \<Rightarrow> event list" where
  "doHandleDeleteImages configuration r params =
     (case splitImagesUrl (Path r) of
        Inl err \<Rightarrow> sendResponse InvalidParameter (errorBody ''InvalidParameter'' ''Failed to decode URL'')
      | Inr (uuid, file) \<Rightarrow>
          (let path = Datadir configuration @ ''/'' @ uuid in
           if length file > 0 then
             (if file = ''/icon'' then [Call DeleteImageIcon path]
              else
                sendResponse ResourceNotFound
                  (errorBody ''ResourceNotFound'' ''Resource does not exists''))
           else [Call DeleteImage path]))"

text \<open>
  The inner \<^verbatim>\<open>switch action[0]\<close>. A Go \<^verbatim>\<open>case\<close> does not fall through: the four cases with
  an empty body do nothing, and the reply under \<^verbatim>\<open>case "channel-add"\<close> belongs to that case
  alone.
\<close>

definition switchAction :: "string \<Rightarrow> string \<Rightarrow> event list" where
  "switchAction action0 path =
     (if action0 = ''activate'' then [Call ActivateImage path]
      else if action0 = ''update'' then [Call UpdateImage path]
      else if action0 = ''disable'' then [Call DisableImage path]
      else if action0 = ''enable'' then [Call EnableImage path]
      else if action0 = ''export'' then []
      else if action0 = ''copy-remote'' then []
      else if action0 = ''import-remote'' then []
      else if action0 = ''import'' then []
      else if action0 = ''channel-add'' then
        sendResponse InsufficientServerVersion
          (errorBody ''InsufficientServerVersion''
             (''action='' @ [CHR 0x22] @ action0 @ [CHR 0x22] @ '' is not implemented''))
      else
        sendResponse InvalidParameter
          (errorBody ''InvalidParameter''
             (''Invalid action '' @ [CHR 0x22] @ action0 @ [CHR 0x22])))"

definition doHandlePostImages ::
  "Configuration \<Rightarrow> (string \<Rightarrow> oserror option) \<Rightarrow> Request \<Rightarrow> Values \<Rightarrow> event list" where
  "doHandlePostImages configuration stat r params =
     (if ''/images'' = Path r then [Call CreateImage (Datadir configuration)]
      else
        (case splitImagesUrl (Path r) of
           Inl err \<Rightarrow>
             sendResponse InvalidParameter (errorBody ''InvalidParameter'' ''Failed to decode URL'')
         | Inr (uuid, file) \<Rightarrow>
             (let path = Datadir configuration @ ''/'' @ uuid in
              (case stat path of
                 Some err \<Rightarrow>
                   if IsNotExist err then
                     sendResponse ResourceNotFound
                       (errorBody ''ResourceNotFound'' ''Failed to locate resource'')
                   else
                     sendResponse InternalError
                       (errorBody ''InternalError''
                          (''Failed to locate resource '' @ ErrorText err))
               | None \<Rightarrow>
                   if file = ''/icon'' then [Call AddImageIcon path]
                   else if file = ''/acl'' then
                     sendResponse InsufficientServerVersion
                       (errorBody ''InsufficientServerVersion'' ''acl is not implemented'')
                   else if file = '''' then
                     (case params ''action'' of
                        Some action \<Rightarrow>
                          (case action of
                             [] \<Rightarrow> [Panic ''index out of range [0] with length 0'']
                           | action0 # _ \<Rightarrow> switchAction action0 path)
                      | None \<Rightarrow>
                          sendResponse InvalidParameter
                            (errorBody ''InvalidParameter'' ''action parameter not specified''))
                   else
                     sendResponse ResourceNotFound
                       (errorBody ''ResourceNotFound'' ''Invalid URL specified'')))))"

definition doHandlePutImages ::
  "Configuration \<Rightarrow> Request \<Rightarrow> Values \<Rightarrow> event list" where
  "doHandlePutImages configuration r params =
     (case splitImagesUrl (Path r) of
        Inl err \<Rightarrow> sendResponse InvalidParameter (errorBody ''InvalidParameter'' ''Failed to decode URL'')
      | Inr (uuid, file) \<Rightarrow>
          if file \<noteq> ''/file'' then
            sendResponse InvalidParameter (errorBody ''InvalidParameter'' ''Failed to decode URL'')
          else [Call AddImageFile (Datadir configuration @ ''/'' @ uuid)])"

section \<open>Authentication and method dispatch\<close>

text \<open>
  The loop over \<^verbatim>\<open>configuration.Userdb\<close> in \<^verbatim>\<open>doHandleImages\<close>, with the flag \<^verbatim>\<open>found\<close> as
  accumulator. \<open>None\<close> is the \<^verbatim>\<open>return\<close> from inside the loop (wrong password); \<open>Some found\<close>
  is the loop running to its end. There is no \<^verbatim>\<open>break\<close> after a matching entry.
\<close>

fun scanUserdb :: "UserEntry list \<Rightarrow> string \<Rightarrow> string \<Rightarrow> bool \<Rightarrow> bool option" where
  "scanUserdb [] username password found = Some found"
| "scanUserdb (entry # rest) username password found =
     (if username \<noteq> Name entry then scanUserdb rest username password found
      else if password \<noteq> Password entry then None
      else scanUserdb rest username password True)"

text \<open>
  The first block of \<^verbatim>\<open>doHandleImages\<close>: \<open>Inl\<close> the events of an early \<^verbatim>\<open>return\<close>, \<open>Inr\<close>
  the value of the variable \<^verbatim>\<open>authenticated\<close> when the block is left.
\<close>

definition authenticate :: "Configuration \<Rightarrow> Request \<Rightarrow> event list + bool" where
  "authenticate configuration r =
     (case BasicAuth r of
        None \<Rightarrow> Inr False
      | Some (username, password) \<Rightarrow>
          (case scanUserdb (Userdb configuration) username password False of
             None \<Rightarrow>
               Inl (Log (''Invalid username password combo for '' @ username) #
                    sendResponse UnauthorizedError
                      (errorBody ''UnauthorizedError'' ''Invalid username/password combination''))
           | Some found \<Rightarrow>
               if \<not> found then
                 Inl (Log (''User '' @ username @ '' does not exists'') #
                      sendResponse AccountDoesNotExist
                        (errorBody ''AccountDoesNotExist''
                           (''User '' @ username @ '' does not exist'')))
               else Inr True))"

definition doHandleImages ::
  "Configuration \<Rightarrow> (string \<Rightarrow> oserror option) \<Rightarrow> Request \<Rightarrow> event list" where
  "doHandleImages configuration stat r =
     (case authenticate configuration r of
        Inl events \<Rightarrow> events
      | Inr authenticated \<Rightarrow>
          (case Query r of
             Inl err \<Rightarrow>
               sendResponse InternalError (errorBody ''InternalError'' ''Failed to parse query'')
           | Inr parameters \<Rightarrow>
               if length (Method r) = 0 \<or> Method r = ''GET'' then
                 doHandleGetImages configuration stat r parameters
               else if Method r = ''DELETE'' then
                 (if authenticated then doHandleDeleteImages configuration r parameters
                  else [WriteHeader UnauthorizedError])
               else if Method r = ''POST'' then
                 (if authenticated then doHandlePostImages configuration stat r parameters
                  else [WriteHeader UnauthorizedError])
               else if Method r = ''PUT'' then
                 (if authenticated then doHandlePutImages configuration r parameters
                  else [WriteHeader UnauthorizedError])
               else []))"

section \<open>Observing a trace\<close>

text \<open>
  A response is a status line written to the response writer or a delegation to an operation
  handler (which writes its own response).
\<close>

fun isResponse :: "event \<Rightarrow> bool" where
  "isResponse (WriteHeader code) = True"
| "isResponse (Call h path) = True"
| "isResponse e = False"

definition responses :: "event list \<Rightarrow> nat" where
  "responses events = length (filter isResponse events)"

fun isLog :: "event \<Rightarrow> bool" where
  "isLog (Log line) = True"
| "isLog e = False"

text \<open>The status written to the response writer and the body content written to it, if any.\<close>

fun statusOf :: "event list \<Rightarrow> errorcode option" where
  "statusOf [] = None"
| "statusOf (WriteHeader code # events) = Some code"
| "statusOf (e # events) = statusOf events"

fun contentOf :: "event list \<Rightarrow> (string \<times> string) list option" where
  "contentOf [] = None"
| "contentOf (Write content # events) = Some content"
| "contentOf (e # events) = contentOf events"

text \<open>A delegation: the invocation does nothing but call one operation handler.\<close>

definition isDelegation :: "event list \<Rightarrow> bool" where
  "isDelegation events = (case events of [Call h path] \<Rightarrow> True | _ \<Rightarrow> False)"

text \<open>
  A structured error response: apart from log lines, the invocation is one \<open>sendResponse\<close>
  with a body whose keys are \<^verbatim>\<open>code\<close> and \<^verbatim>\<open>message\<close>.
\<close>

definition isStructuredError :: "event list \<Rightarrow> bool" where
  "isStructuredError events =
     (case (statusOf events, contentOf events) of
        (Some code, Some content) \<Rightarrow>
          map fst content = [''code'', ''message''] \<and>
          filter (\<lambda>e. \<not> isLog e) events = sendResponse code (Some content)
      | _ \<Rightarrow> False)"

text \<open>
  The value list of the query parameter \<^verbatim>\<open>action\<close> with which \<^verbatim>\<open>doHandlePostImages\<close> enters
  its inner \<^verbatim>\<open>switch\<close>, if it gets there: the path parses without subresource, \<^verbatim>\<open>os.Stat\<close>
  of \<^verbatim>\<open>{datadir}/{uuid}\<close> succeeds and the parameter is present.
\<close>

definition postAction ::
  "Configuration \<Rightarrow> (string \<Rightarrow> oserror option) \<Rightarrow> string \<Rightarrow> Values \<Rightarrow> string list option" where
  "postAction configuration stat path params =
     (case splitImagesUrl path of
        Inl err \<Rightarrow> None
      | Inr (uuid, file) \<Rightarrow>
          if file = '''' \<and> stat (Datadir configuration @ ''/'' @ uuid) = None
          then params ''action'' else None)"

text \<open>
  The same for a request handled by \<open>doHandleImages\<close>: it is an authenticated POST whose
  query parses.
\<close>

definition reachedAction ::
  "Configuration \<Rightarrow> (string \<Rightarrow> oserror option) \<Rightarrow> Request \<Rightarrow> string list option" where
  "reachedAction configuration stat r =
     (if Method r = ''POST'' \<and> authenticate configuration r = Inr True then
        (case Query r of
           Inl err \<Rightarrow> None
         | Inr params \<Rightarrow> postAction configuration stat (Path r) params)
      else None)"

text \<open>
  A request that enters the inner \<^verbatim>\<open>switch\<close> with one of the four names that have a
  \<^verbatim>\<open>case\<close> with an empty body.
\<close>

definition silentPost ::
  "Configuration \<Rightarrow> (string \<Rightarrow> oserror option) \<Rightarrow> Request \<Rightarrow> bool" where
  "silentPost configuration stat r =
     (case reachedAction configuration stat r of
        Some (a # rest) \<Rightarrow> a \<in> set [''export'', ''copy-remote'', ''import-remote'', ''import'']
      | _ \<Rightarrow> False)"

text \<open>
  The authenticator as the specification words it, for comparison with \<open>scanUserdb\<close>: the
  scan stops at the first entry whose name equals the user name, and the result is whether
  that entry's password equals the supplied one; \<open>None\<close> when no entry has the name.
\<close>

fun firstMatchSpec :: "UserEntry list \<Rightarrow> string \<Rightarrow> string \<Rightarrow> bool option" where
  "firstMatchSpec [] username password = None"
| "firstMatchSpec (entry # rest) username password =
     (if Name entry = username then Some (Password entry = password)
      else firstMatchSpec rest username password)"

section \<open>Example inputs\<close>

abbreviation userA :: UserEntry where
  "userA \<equiv> \<lparr>Name = ''a'', Password = ''1''\<rparr>"

abbreviation userA2 :: UserEntry where
  "userA2 \<equiv> \<lparr>Name = ''a'', Password = ''2''\<rparr>"

abbreviation confOf :: "UserEntry list \<Rightarrow> Configuration" where
  "confOf db \<equiv> \<lparr>Datadir = ''/data'', Port = 8080, Userdb = db\<rparr>"

text \<open>A file system where every path exists, and one where none does.\<close>

abbreviation statPresent :: "string \<Rightarrow> oserror option" where
  "statPresent \<equiv> (\<lambda>path. None)"

abbreviation statAbsent :: "string \<Rightarrow> oserror option" where
  "statAbsent \<equiv> (\<lambda>path. Some (OsError True ''no such file or directory''))"

section \<open>Facts about the URL parser\<close>

lemma strings_Index_ge: "- 1 \<le> strings_Index s sep"
  by (induction s) (simp_all add: Let_def)

lemma strings_Index_0_iff: "strings_Index s sep = 0 \<longleftrightarrow> prefix sep s"
proof (cases s)
  case Nil
  then show ?thesis by simp
next
  case (Cons c t)
  have "- 1 \<le> strings_Index t sep" by (rule strings_Index_ge)
  then show ?thesis using Cons by (simp add: Let_def)
qed

lemma strings_Index_char:
  "strings_Index s [c] =
     (if c \<in> set s then int (length (takeWhile (\<lambda>x. x \<noteq> c) s)) else - 1)"
  by (induction s) (simp_all add: Let_def)

lemma split_at_slash:
  "(let index = strings_Index rest ''/'' in
    if index \<noteq> - 1 then Inr (take (nat index) rest, drop (nat index) rest)
    else (Inr (rest, '''') :: string + (string \<times> string))) =
   Inr (takeWhile (\<lambda>x. x \<noteq> CHR ''/'') rest, dropWhile (\<lambda>x. x \<noteq> CHR ''/'') rest)"
proof (cases "CHR ''/'' \<in> set rest")
  case True
  then show ?thesis
    by (simp add: strings_Index_char takeWhile_eq_take [symmetric] dropWhile_eq_drop [symmetric])
next
  case False
  then have "takeWhile (\<lambda>x. x \<noteq> CHR ''/'') rest = rest"
    and "dropWhile (\<lambda>x. x \<noteq> CHR ''/'') rest = []"
    by auto
  with False show ?thesis
    by (simp add: strings_Index_char del: takeWhile_eq_all_conv dropWhile_eq_Nil_conv)
qed

text \<open>
  The parser in closed form: it succeeds exactly on a path that starts with \<^verbatim>\<open>/images/\<close> and
  goes on, and it cuts the remainder at its first slash.
\<close>

lemma splitImagesUrl_eq:
  "splitImagesUrl url =
     (if prefix ''/images/'' url \<and> drop 8 url \<noteq> []
      then Inr (takeWhile (\<lambda>x. x \<noteq> CHR ''/'') (drop 8 url),
                dropWhile (\<lambda>x. x \<noteq> CHR ''/'') (drop 8 url))
      else Inl ''Invalid url'')"
  unfolding splitImagesUrl_def Let_def [of "drop 8 url"] split_at_slash strings_Index_0_iff
  by simp

lemma splitImagesUrl_Inr_iff:
  "splitImagesUrl url = Inr (uuid, file) \<longleftrightarrow>
     prefix ''/images/'' url \<and> drop 8 url \<noteq> [] \<and>
     uuid = takeWhile (\<lambda>x. x \<noteq> CHR ''/'') (drop 8 url) \<and>
     file = dropWhile (\<lambda>x. x \<noteq> CHR ''/'') (drop 8 url)"
  unfolding splitImagesUrl_eq
  by (cases "prefix ''/images/'' url \<and> drop 8 url \<noteq> []") (simp_all add: eq_commute)

lemma splitImagesUrl_Inl_iff:
  "splitImagesUrl url = Inl e \<longleftrightarrow>
     e = ''Invalid url'' \<and> (\<not> prefix ''/images/'' url \<or> drop 8 url = [])"
  unfolding splitImagesUrl_eq
  by (cases "prefix ''/images/'' url"; cases "drop 8 url = []"; simp add: eq_commute)

text \<open>
  The converse direction of the round trip: a path assembled from a non-empty identifier
  without a slash and a tag that is empty or starts with a slash parses back to both.
\<close>

lemma splitImagesUrl_assemble:
  assumes "uuid \<noteq> []" and "CHR ''/'' \<notin> set uuid" and "file = [] \<or> prefix ''/'' file"
  shows "splitImagesUrl (''/images/'' @ uuid @ file) = Inr (uuid, file)"
proof -
  have t: "takeWhile (\<lambda>x. x \<noteq> CHR ''/'') (uuid @ file) = uuid"
    using assms(2,3) by (cases "file") (auto simp: takeWhile_append)
  have d: "dropWhile (\<lambda>x. x \<noteq> CHR ''/'') (uuid @ file) = file"
    using assms(2,3) by (cases "file") (auto simp: dropWhile_append)
  show ?thesis
    using assms(1) by (simp add: splitImagesUrl_eq t d)
qed

section \<open>The claims about the URL parser\<close>

text \<open>
  C6. Whenever \<open>splitImagesUrl\<close> succeeds on a path, the returned identifier followed by the
  returned subresource tag is exactly the part of the path after the prefix \<^verbatim>\<open>/images/\<close>
  (eight bytes), so the path is the prefix, the identifier and the tag put together.
\<close>

theorem splitImagesUrl_roundtrip:
  "splitImagesUrl url = Inr (uuid, file) \<Longrightarrow>
     uuid @ file = drop (length ''/images/'') url \<and> url = ''/images/'' @ uuid @ file"
proof -
  assume h: "splitImagesUrl url = Inr (uuid, file)"
  then have p: "prefix ''/images/'' url" and u: "uuid @ file = drop 8 url"
    by (simp_all add: splitImagesUrl_Inr_iff)
  from p obtain rest where "url = ''/images/'' @ rest" unfolding prefix_def by blast
  with u show ?thesis by simp
qed

theorem splitImagesUrl_roundtrip_witness:
  "splitImagesUrl ''/images/abc/file'' = Inr (''abc'', ''/file'') \<and>
   ''abc'' @ ''/file'' = drop (length ''/images/'') ''/images/abc/file'' \<and>
   ''/images/abc/file'' = ''/images/'' @ ''abc'' @ ''/file''"
  using splitImagesUrl_roundtrip [of "''/images/abc/file''" "''abc''" "''/file''"]
  by (simp add: splitImagesUrl_def)

text \<open>
  C7, as stated, fails: the parser only cuts the path, so it succeeds with a tag that is
  none of the empty tag, \<^verbatim>\<open>/file\<close>, \<^verbatim>\<open>/icon\<close>, \<^verbatim>\<open>/acl\<close> (with or without the slash).
\<close>

theorem splitImagesUrl_tag_counterexample:
  "splitImagesUrl ''/images/u/foo'' = Inr (''u'', ''/foo'') \<and>
   ''/foo'' \<notin> {'''', ''/file'', ''/icon'', ''/acl'', ''file'', ''icon'', ''acl''}"
  by (simp add: splitImagesUrl_def)

text \<open>
  The check \<^verbatim>\<open>len(uuid) == 0\<close> is made on the whole remainder, before it is cut at the
  slash: a remainder that starts with a slash gives an empty identifier.
\<close>

lemma splitImagesUrl_empty_uuid: "splitImagesUrl ''/images//file'' = Inr ('''', ''/file'')"
  by (simp add: splitImagesUrl_def)

text \<open>
  C7, amended. Whenever the parser succeeds, the identifier contains no slash and the tag is
  empty or starts with a slash (any such tag is passed through, not only \<^verbatim>\<open>/file\<close>, \<^verbatim>\<open>/icon\<close>
  and \<^verbatim>\<open>/acl\<close>); the identifier is non-empty whenever the remainder after the prefix does not
  start with a slash. Every path that does not start with \<^verbatim>\<open>/images/\<close> fails with the error
  \<^verbatim>\<open>Invalid url\<close>, and so does \<^verbatim>\<open>/images/\<close> itself.
\<close>

theorem splitImagesUrl_invariant:
  "(splitImagesUrl url = Inr (uuid, file) \<longrightarrow>
      (\<not> prefix ''/'' (drop (length ''/images/'') url) \<longrightarrow> uuid \<noteq> []) \<and>
      CHR ''/'' \<notin> set uuid \<and> (file = [] \<or> prefix ''/'' file)) \<and>
   (\<not> prefix ''/images/'' url' \<longrightarrow> splitImagesUrl url' = Inl ''Invalid url'') \<and>
   splitImagesUrl ''/images/'' = Inl ''Invalid url''"
proof -
  let ?P = "\<lambda>x. x \<noteq> CHR ''/''"
  have a: "CHR ''/'' \<notin> set (takeWhile ?P xs)" for xs
    using set_takeWhileD by fastforce
  have b: "dropWhile ?P xs = [] \<or> prefix ''/'' (dropWhile ?P xs)" for xs
  proof (cases "dropWhile ?P xs")
    case Nil
    then show ?thesis by simp
  next
    case (Cons y ys)
    then have "\<not> ?P y" using hd_dropWhile [of ?P xs] by fastforce
    with Cons show ?thesis by simp
  qed
  have c: "takeWhile ?P xs \<noteq> []" if "xs \<noteq> []" and "\<not> prefix ''/'' xs" for xs
    using that by (cases xs) auto
  have l8: "length ''/images/'' = 8" by simp
  have 1: "splitImagesUrl url = Inr (uuid, file) \<longrightarrow>
      (\<not> prefix ''/'' (drop (length ''/images/'') url) \<longrightarrow> uuid \<noteq> []) \<and>
      CHR ''/'' \<notin> set uuid \<and> (file = [] \<or> prefix ''/'' file)"
    unfolding l8 splitImagesUrl_Inr_iff using a b c [of "drop 8 url"] by simp
  have 2: "\<not> prefix ''/images/'' url' \<longrightarrow> splitImagesUrl url' = Inl ''Invalid url''"
    by (simp add: splitImagesUrl_eq)
  have 3: "splitImagesUrl ''/images/'' = Inl ''Invalid url''"
    by (simp add: splitImagesUrl_def)
  from 1 2 3 show ?thesis by blast
qed

theorem splitImagesUrl_invariant_witness:
  "splitImagesUrl ''/images/u/foo'' = Inr (''u'', ''/foo'') \<and>
   \<not> prefix ''/'' (drop (length ''/images/'') ''/images/u/foo'') \<and> ''u'' \<noteq> [] \<and>
   CHR ''/'' \<notin> set ''u'' \<and> prefix ''/'' ''/foo'' \<and>
   \<not> prefix ''/images/'' ''/image/u'' \<and> splitImagesUrl ''/image/u'' = Inl ''Invalid url''"
  using splitImagesUrl_invariant [of "''/images/u/foo''" "''u''" "''/foo''" "''/image/u''"]
  by (simp add: splitImagesUrl_def)

text \<open>
  The identifier is empty exactly when the remainder starts with a slash.
\<close>

lemma splitImagesUrl_uuid_empty_iff:
  "splitImagesUrl url = Inr (uuid, file) \<Longrightarrow>
     uuid = [] \<longleftrightarrow> prefix ''/'' (drop (length ''/images/'') url)"
proof -
  assume h: "splitImagesUrl url = Inr (uuid, file)"
  then have n: "drop 8 url \<noteq> []"
    and u: "uuid = takeWhile (\<lambda>x. x \<noteq> CHR ''/'') (drop 8 url)"
    by (simp_all add: splitImagesUrl_Inr_iff)
  have "length ''/images/'' = 8" by simp
  then have l: "drop (length ''/images/'') url = drop 8 url" by (simp only:)
  from n u show ?thesis unfolding l by (cases "drop 8 url") auto
qed

section \<open>Facts about the authenticator\<close>

text \<open>
  The loop in closed form: it returns early exactly when some entry with the user name has
  another password, and otherwise reports whether any entry has the name.
\<close>

lemma scanUserdb_eq:
  "scanUserdb db username password found =
     (if \<exists>e\<in>set db. Name e = username \<and> Password e \<noteq> password then None
      else Some (found \<or> (\<exists>e\<in>set db. Name e = username)))"
  by (induction db arbitrary: found) auto

text \<open>
  A request is authenticated exactly when it carries credentials, some entry has the user
  name, and every entry with that name has the supplied password.
\<close>

lemma authenticate_accepts:
  "authenticate configuration r = Inr True \<longleftrightarrow>
     (\<exists>username password. BasicAuth r = Some (username, password) \<and>
        (\<exists>e\<in>set (Userdb configuration). Name e = username) \<and>
        (\<forall>e\<in>set (Userdb configuration). Name e = username \<longrightarrow> Password e = password))"
  by (auto simp: authenticate_def scanUserdb_eq split: option.splits prod.splits)

text \<open>On a user list without duplicate names the loop agrees with first-match semantics.\<close>

lemma scanUserdb_firstMatchSpec:
  "distinct (map Name db) \<Longrightarrow>
     scanUserdb db username password False =
       (case firstMatchSpec db username password of
          None \<Rightarrow> Some False
        | Some ok \<Rightarrow> if ok then Some True else None)"
proof (induction db)
  case Nil
  then show ?case by simp
next
  case (Cons e db)
  show ?case
  proof (cases "Name e = username")
    case True
    with Cons.prems have "username \<notin> Name ` set db" by simp
    then have "\<forall>x\<in>set db. Name x \<noteq> username" by blast
    with True show ?thesis by (simp add: scanUserdb_eq)
  next
    case False
    with Cons show ?thesis by simp
  qed
qed

section \<open>Facts about the dispatcher\<close>

text \<open>Past authentication and query parsing, \<open>doHandleImages\<close> is its method dispatch.\<close>

lemma doHandleImages_dispatch:
  "authenticate configuration r = Inr authenticated \<Longrightarrow> Query r = Inr parameters \<Longrightarrow>
     doHandleImages configuration stat r =
       (if length (Method r) = 0 \<or> Method r = ''GET'' then
          doHandleGetImages configuration stat r parameters
        else if Method r = ''DELETE'' then
          (if authenticated then doHandleDeleteImages configuration r parameters
           else [WriteHeader UnauthorizedError])
        else if Method r = ''POST'' then
          (if authenticated then doHandlePostImages configuration stat r parameters
           else [WriteHeader UnauthorizedError])
        else if Method r = ''PUT'' then
          (if authenticated then doHandlePutImages configuration r parameters
           else [WriteHeader UnauthorizedError])
        else [])"
  by (simp add: doHandleImages_def)

text \<open>
  The routing functions are reached from \<open>doHandleImages\<close> as follows: the GET routing for
  every request with method GET or none that passes authentication and query parsing, the
  others for authenticated requests with their method.
\<close>

lemma doHandleImages_GET:
  "authenticate configuration r = Inr authenticated \<Longrightarrow> Query r = Inr parameters \<Longrightarrow>
   Method r = '''' \<or> Method r = ''GET'' \<Longrightarrow>
     doHandleImages configuration stat r = doHandleGetImages configuration stat r parameters"
  by (auto simp: doHandleImages_dispatch)

lemma doHandleImages_DELETE:
  "authenticate configuration r = Inr True \<Longrightarrow> Query r = Inr parameters \<Longrightarrow>
   Method r = ''DELETE'' \<Longrightarrow>
     doHandleImages configuration stat r = doHandleDeleteImages configuration r parameters"
  by (simp add: doHandleImages_dispatch)

lemma doHandleImages_POST:
  "authenticate configuration r = Inr True \<Longrightarrow> Query r = Inr parameters \<Longrightarrow>
   Method r = ''POST'' \<Longrightarrow>
     doHandleImages configuration stat r = doHandlePostImages configuration stat r parameters"
  by (simp add: doHandleImages_dispatch)

lemma doHandleImages_PUT:
  "authenticate configuration r = Inr True \<Longrightarrow> Query r = Inr parameters \<Longrightarrow>
   Method r = ''PUT'' \<Longrightarrow>
     doHandleImages configuration stat r = doHandlePutImages configuration r parameters"
  by (simp add: doHandleImages_dispatch)

lemma splitImagesUrl_not_images: "splitImagesUrl ''/images'' = Inl ''Invalid url''"
  by (simp add: splitImagesUrl_def)

text \<open>The POST routing on an existing \<^verbatim>\<open>/images/{uuid}\<close> without subresource.\<close>

lemma doHandlePostImages_action:
  assumes "splitImagesUrl (Path r) = Inr (uuid, '''')"
    and "stat (Datadir configuration @ ''/'' @ uuid) = None"
  shows "doHandlePostImages configuration stat r params =
     (case params ''action'' of
        None \<Rightarrow>
          sendResponse InvalidParameter
            (errorBody ''InvalidParameter'' ''action parameter not specified'')
      | Some [] \<Rightarrow> [Panic ''index out of range [0] with length 0'']
      | Some (a # rest) \<Rightarrow> switchAction a (Datadir configuration @ ''/'' @ uuid))"
proof -
  from assms(1) have "''/images'' \<noteq> Path r"
    using splitImagesUrl_not_images by auto
  with assms show ?thesis
    by (simp add: doHandlePostImages_def Let_def split: option.split list.split)
qed

text \<open>
  Four of the five action names that the source lists above the reply
  \<^verbatim>\<open>action="..." is not implemented\<close> produce nothing; only the last one produces the reply.
\<close>

lemma switchAction_unimplemented:
  "a \<in> set [''export'', ''copy-remote'', ''import-remote'', ''import''] \<Longrightarrow>
     switchAction a path = []"
  by (auto simp: switchAction_def)

lemma switchAction_channel_add:
  "switchAction ''channel-add'' path =
     sendResponse InsufficientServerVersion
       (errorBody ''InsufficientServerVersion''
          (''action='' @ [CHR 0x22] @ ''channel-add'' @ [CHR 0x22] @ '' is not implemented''))"
  by (simp add: switchAction_def)

lemma sublist_quoted: "sublist a (p @ [q] @ a @ [q])"
  using sublist_appendI [of a "p @ [q]" "[q]"] by simp

subsection \<open>Counting responses\<close>

lemma responses_sendResponse [simp]: "responses (sendResponse code content) = 1"
  by (simp add: responses_def sendResponse_def split: option.split)

lemma responses_Call [simp]: "responses [Call h p] = 1"
  by (simp add: responses_def)

lemma responses_Log [simp]: "responses (Log l # events) = responses events"
  by (simp add: responses_def)

lemma responses_WriteHeader [simp]: "responses [WriteHeader c] = 1"
  by (simp add: responses_def)

lemma doHandleGetImages_responses:
  "responses (doHandleGetImages configuration stat r params) = 1"
  by (simp add: doHandleGetImages_def Let_def split: sum.split option.split prod.split)

lemma doHandleDeleteImages_responses:
  "responses (doHandleDeleteImages configuration r params) = 1"
  by (simp add: doHandleDeleteImages_def Let_def split: sum.split prod.split)

lemma doHandlePutImages_responses:
  "responses (doHandlePutImages configuration r params) = 1"
  by (simp add: doHandlePutImages_def split: sum.split prod.split)

lemma switchAction_responses:
  "responses (switchAction a path) =
     (if a \<in> set [''export'', ''copy-remote'', ''import-remote'', ''import''] then 0 else 1)"
  by (simp add: switchAction_def responses_def [of "[]"])

lemma doHandlePostImages_responses_le:
  "responses (doHandlePostImages configuration stat r params) \<le> 1"
  by (simp add: doHandlePostImages_def Let_def switchAction_responses
      responses_def [of "[Panic _]"]
      split: sum.split option.split prod.split list.split)

lemma doHandlePostImages_responses:
  assumes "params ''action'' \<noteq> Some []"
    and "\<forall>a rest. params ''action'' = Some (a # rest) \<longrightarrow>
           a \<notin> set [''export'', ''copy-remote'', ''import-remote'', ''import'']"
  shows "responses (doHandlePostImages configuration stat r params) = 1"
proof (cases "params ''action''")
  case None
  then show ?thesis
    by (simp add: doHandlePostImages_def Let_def split: sum.split option.split prod.split)
next
  case (Some action)
  with assms(1) obtain a rest where action: "action = a # rest" by (cases action) auto
  with Some assms(2) have "a \<notin> set [''export'', ''copy-remote'', ''import-remote'', ''import'']"
    by blast
  then have "responses (switchAction a path) = 1" for path
    by (simp add: switchAction_responses)
  with Some action show ?thesis
    by (simp add: doHandlePostImages_def Let_def split: sum.split option.split prod.split)
qed

subsection \<open>The shape of a response\<close>

lemma isDelegation_Call [simp]: "isDelegation [Call h path]"
  by (simp add: isDelegation_def)

lemma isStructuredError_sendResponse [simp]:
  "isStructuredError (sendResponse code (errorBody name message))"
  by (simp add: isStructuredError_def sendResponse_def errorBody_def)

lemma isStructuredError_Log [simp]:
  "isStructuredError (Log line # sendResponse code (errorBody name message))"
  by (simp add: isStructuredError_def sendResponse_def errorBody_def)

lemma doHandleGetImages_shape:
  "isDelegation (doHandleGetImages configuration stat r params) \<or>
   isStructuredError (doHandleGetImages configuration stat r params)"
  by (simp add: doHandleGetImages_def Let_def split: sum.split option.split prod.split)

lemma doHandleDeleteImages_shape:
  "isDelegation (doHandleDeleteImages configuration r params) \<or>
   isStructuredError (doHandleDeleteImages configuration r params)"
  by (simp add: doHandleDeleteImages_def Let_def split: sum.split prod.split)

lemma doHandlePutImages_shape:
  "isDelegation (doHandlePutImages configuration r params) \<or>
   isStructuredError (doHandlePutImages configuration r params)"
  by (simp add: doHandlePutImages_def split: sum.split prod.split)

lemma switchAction_shape:
  "a \<notin> set [''export'', ''copy-remote'', ''import-remote'', ''import''] \<Longrightarrow>
     isDelegation (switchAction a path) \<or> isStructuredError (switchAction a path)"
  by (simp add: switchAction_def)

lemma doHandlePostImages_shape:
  assumes "params ''action'' \<noteq> Some []"
    and "\<forall>a rest. params ''action'' = Some (a # rest) \<longrightarrow>
           a \<notin> set [''export'', ''copy-remote'', ''import-remote'', ''import'']"
  shows "isDelegation (doHandlePostImages configuration stat r params) \<or>
         isStructuredError (doHandlePostImages configuration stat r params)"
proof (cases "params ''action''")
  case None
  then show ?thesis
    by (simp add: doHandlePostImages_def Let_def split: sum.split option.split prod.split)
next
  case (Some action)
  with assms(1) obtain a rest where action: "action = a # rest" by (cases action) auto
  with Some assms(2) have "a \<notin> set [''export'', ''copy-remote'', ''import-remote'', ''import'']"
    by blast
  then have "isDelegation (switchAction a path) \<or> isStructuredError (switchAction a path)"
    for path
    by (rule switchAction_shape)
  with Some action show ?thesis
    by (simp add: doHandlePostImages_def Let_def split: sum.split option.split prod.split)
qed

subsection \<open>The outcomes of authentication\<close>

lemma authenticate_anonymous:
  "authenticate configuration r = Inr False \<longleftrightarrow> BasicAuth r = None"
  by (auto simp: authenticate_def split: option.splits prod.splits)

lemma authenticate_Inl:
  assumes "authenticate configuration r = Inl events"
  shows "BasicAuth r \<noteq> None"
    and "\<exists>line code name message.
           events = Log line # sendResponse code (errorBody name message) \<and>
           code \<in> {UnauthorizedError, AccountDoesNotExist}"
  using assms by (auto simp: authenticate_def split: option.splits prod.splits if_splits)

lemma statusOf_sendResponse [simp]: "statusOf (sendResponse code content) = Some code"
  by (simp add: sendResponse_def)

lemma statusOf_Log [simp]: "statusOf (Log line # events) = statusOf events"
  by simp

subsection \<open>No routing function writes a bare status\<close>

lemma sendResponse_not_bare [simp]: "sendResponse code content \<noteq> [WriteHeader c]"
  by (simp add: sendResponse_def)

lemma switchAction_not_bare: "switchAction a path \<noteq> [WriteHeader c]"
  by (simp add: switchAction_def)

lemma doHandleGetImages_not_bare:
  "doHandleGetImages configuration stat r params \<noteq> [WriteHeader c]"
  by (simp add: doHandleGetImages_def Let_def split: sum.split option.split prod.split)

lemma doHandleDeleteImages_not_bare:
  "doHandleDeleteImages configuration r params \<noteq> [WriteHeader c]"
  by (simp add: doHandleDeleteImages_def Let_def split: sum.split prod.split)

lemma doHandlePutImages_not_bare:
  "doHandlePutImages configuration r params \<noteq> [WriteHeader c]"
  by (simp add: doHandlePutImages_def split: sum.split prod.split)

lemma doHandlePostImages_not_bare:
  "doHandlePostImages configuration stat r params \<noteq> [WriteHeader c]"
  by (simp add: doHandlePostImages_def Let_def switchAction_not_bare
      split: sum.split option.split prod.split list.split)

subsection \<open>The POST routing and its inner switch\<close>

lemma postAction_reached:
  "splitImagesUrl path = Inr (uuid, '''') \<Longrightarrow>
   stat (Datadir configuration @ ''/'' @ uuid) = None \<Longrightarrow>
     postAction configuration stat path params = params ''action''"
  by (simp add: postAction_def)

text \<open>When the inner switch is not entered, the POST routing answers in one of the two shapes.\<close>

lemma doHandlePostImages_not_reached:
  assumes "\<not> (\<exists>uuid. splitImagesUrl (Path r) = Inr (uuid, '''') \<and>
                  stat (Datadir configuration @ ''/'' @ uuid) = None)"
  shows "responses (doHandlePostImages configuration stat r params) = 1"
    and "isDelegation (doHandlePostImages configuration stat r params) \<or>
         isStructuredError (doHandlePostImages configuration stat r params)"
  using assms
  by (auto simp: doHandlePostImages_def Let_def split: sum.split option.split prod.split)

lemma doHandlePostImages_one:
  assumes "postAction configuration stat (Path r) params \<noteq> Some []"
    and "\<forall>a rest. postAction configuration stat (Path r) params = Some (a # rest) \<longrightarrow>
           a \<notin> set [''export'', ''copy-remote'', ''import-remote'', ''import'']"
  shows "responses (doHandlePostImages configuration stat r params) = 1 \<and>
         (isDelegation (doHandlePostImages configuration stat r params) \<or>
          isStructuredError (doHandlePostImages configuration stat r params))"
proof (cases "\<exists>uuid. splitImagesUrl (Path r) = Inr (uuid, '''') \<and>
                  stat (Datadir configuration @ ''/'' @ uuid) = None")
  case True
  then obtain uuid where "splitImagesUrl (Path r) = Inr (uuid, '''')"
    and "stat (Datadir configuration @ ''/'' @ uuid) = None" by blast
  then have p: "postAction configuration stat (Path r) params = params ''action''"
    by (rule postAction_reached)
  have "responses (doHandlePostImages configuration stat r params) = 1"
    using assms unfolding p by (rule doHandlePostImages_responses)
  moreover have "isDelegation (doHandlePostImages configuration stat r params) \<or>
      isStructuredError (doHandlePostImages configuration stat r params)"
    using assms unfolding p by (rule doHandlePostImages_shape)
  ultimately show ?thesis by simp
next
  case False
  then show ?thesis
    using doHandlePostImages_not_reached [of r stat configuration params] by simp
qed

subsection \<open>The responses of the dispatcher\<close>

lemma doHandleImages_responses_le: "responses (doHandleImages configuration stat r) \<le> 1"
proof (cases "authenticate configuration r")
  case (Inl events)
  from authenticate_Inl(2) [OF Inl] Inl show ?thesis
    by (auto simp: doHandleImages_def)
next
  case (Inr authenticated)
  show ?thesis
  proof (cases "Query r")
    case (Inl err)
    with Inr show ?thesis by (simp add: doHandleImages_def)
  next
    case q: (Inr parameters)
    show ?thesis
      unfolding doHandleImages_dispatch [OF Inr q]
      using doHandlePostImages_responses_le [of configuration stat r parameters]
      by (simp add: doHandleGetImages_responses doHandleDeleteImages_responses
          doHandlePutImages_responses responses_def [of "[]"])
  qed
qed

lemma doHandleImages_one_response:
  assumes m: "Method r \<in> {'''', ''GET'', ''DELETE'', ''POST'', ''PUT''}"
    and a: "reachedAction configuration stat r \<noteq> Some []"
    and s: "\<not> silentPost configuration stat r"
  shows "responses (doHandleImages configuration stat r) = 1 \<and>
      (isDelegation (doHandleImages configuration stat r) \<or>
       isStructuredError (doHandleImages configuration stat r) \<or>
       doHandleImages configuration stat r = [WriteHeader UnauthorizedError])"
proof (cases "authenticate configuration r")
  case (Inl events)
  from authenticate_Inl(2) [OF Inl] Inl show ?thesis
    by (auto simp: doHandleImages_def)
next
  case (Inr authenticated)
  show ?thesis
  proof (cases "Query r")
    case (Inl err)
    with Inr show ?thesis by (simp add: doHandleImages_def)
  next
    case q: (Inr parameters)
    note d = doHandleImages_dispatch [OF Inr q, of stat]
    consider "Method r = '''' \<or> Method r = ''GET''" | "Method r = ''DELETE''"
      | "Method r = ''POST''" | "Method r = ''PUT''"
      using m by auto
    then show ?thesis
    proof cases
      case 1
      then show ?thesis
        unfolding d using doHandleGetImages_shape [of configuration stat r parameters]
        by (auto simp: doHandleGetImages_responses)
    next
      case 2
      then show ?thesis
        unfolding d using doHandleDeleteImages_shape [of configuration r parameters]
        by (auto simp: doHandleDeleteImages_responses)
    next
      case 3
      show ?thesis
      proof (cases authenticated)
        case True
        with 3 Inr q have ra: "reachedAction configuration stat r =
            postAction configuration stat (Path r) parameters"
          by (simp add: reachedAction_def)
        have "postAction configuration stat (Path r) parameters \<noteq> Some []"
          using a by (simp add: ra)
        moreover have "\<forall>a rest. postAction configuration stat (Path r) parameters = Some (a # rest)
            \<longrightarrow> a \<notin> set [''export'', ''copy-remote'', ''import-remote'', ''import'']"
          using s by (auto simp: silentPost_def ra)
        ultimately have
          "responses (doHandlePostImages configuration stat r parameters) = 1 \<and>
           (isDelegation (doHandlePostImages configuration stat r parameters) \<or>
            isStructuredError (doHandlePostImages configuration stat r parameters))"
          by (rule doHandlePostImages_one)
        with 3 True show ?thesis unfolding d by auto
      next
        case False
        with 3 show ?thesis unfolding d by simp
      qed
    next
      case 4
      then show ?thesis
        unfolding d using doHandlePutImages_shape [of configuration r parameters]
        by (auto simp: doHandlePutImages_responses)
    qed
  qed
qed

text \<open>The bare status is written exactly for an anonymous DELETE, POST or PUT whose query parses.\<close>

lemma doHandleImages_bare_iff:
  "doHandleImages configuration stat r = [WriteHeader UnauthorizedError] \<longleftrightarrow>
     BasicAuth r = None \<and> Method r \<in> {''DELETE'', ''POST'', ''PUT''} \<and> \<not> isl (Query r)"
proof (cases "authenticate configuration r")
  case (Inl events)
  from authenticate_Inl [OF Inl] Inl show ?thesis
    by (auto simp: doHandleImages_def)
next
  case (Inr authenticated)
  have anon: "BasicAuth r = None \<longleftrightarrow> \<not> authenticated"
    using authenticate_anonymous [of configuration r] Inr by auto
  show ?thesis
  proof (cases "Query r")
    case (Inl err)
    with Inr show ?thesis by (simp add: doHandleImages_def)
  next
    case q: (Inr parameters)
    show ?thesis
      unfolding doHandleImages_dispatch [OF Inr q] anon
      by (simp add: q doHandleGetImages_not_bare doHandleDeleteImages_not_bare
          doHandlePostImages_not_bare doHandlePutImages_not_bare)
  qed
qed

text \<open>
  A request with any other method gets the structured error of a failed authentication or
  of a failed query parsing, and nothing otherwise.
\<close>

lemma doHandleImages_other_methods:
  assumes "Method r \<notin> {'''', ''GET'', ''DELETE'', ''POST'', ''PUT''}"
  shows "if isl (authenticate configuration r) \<or> isl (Query r)
         then isStructuredError (doHandleImages configuration stat r) \<and>
              responses (doHandleImages configuration stat r) = 1
         else doHandleImages configuration stat r = []"
proof (cases "authenticate configuration r")
  case (Inl events)
  from authenticate_Inl(2) [OF Inl] Inl show ?thesis
    by (auto simp: doHandleImages_def)
next
  case (Inr authenticated)
  show ?thesis
  proof (cases "Query r")
    case (Inl err)
    with Inr show ?thesis by (simp add: doHandleImages_def)
  next
    case q: (Inr parameters)
    from assms show ?thesis
      by (simp add: doHandleImages_dispatch [OF Inr q] Inr q)
  qed
qed

section \<open>The claims about authentication\<close>

text \<open>
  C1. The claim is first-match semantics: with the user list \<^verbatim>\<open>[{a,1},{a,2}]\<close> the
  credentials \<^verbatim>\<open>a\<close>/\<^verbatim>\<open>1\<close> authenticate, as \<open>firstMatchSpec\<close> says. The loop of the source
  has no \<^verbatim>\<open>break\<close> after the matching entry: it goes on to the second entry and rejects the
  request there with \<^verbatim>\<open>UnauthorizedError\<close>.
\<close>

theorem duplicate_user_rejected:
  "doHandleImages (confOf [userA, userA2]) statPresent
     \<lparr>Method = ''GET'', Path = ''/images'', BasicAuth = Some (''a'', ''1''),
      Query = Inr Map.empty\<rparr> =
     Log ''Invalid username password combo for a'' #
     sendResponse UnauthorizedError
       (errorBody ''UnauthorizedError'' ''Invalid username/password combination'') \<and>
   firstMatchSpec [userA, userA2] ''a'' ''1'' = Some True"
  by (simp add: doHandleImages_def authenticate_def)

text \<open>
  C5, as stated, fails: the query is parsed before the method is looked at, so an anonymous
  DELETE whose query does not parse is answered with \<^verbatim>\<open>InternalError\<close> and a body.
\<close>

theorem anonymous_bad_query_counterexample:
  "doHandleImages (confOf [userA]) statPresent
     \<lparr>Method = ''DELETE'', Path = ''/images/u'', BasicAuth = None,
      Query = Inl ''invalid URL escape''\<rparr> =
     sendResponse InternalError (errorBody ''InternalError'' ''Failed to parse query'') \<and>
   doHandleImages (confOf [userA]) statPresent
     \<lparr>Method = ''DELETE'', Path = ''/images/u'', BasicAuth = None,
      Query = Inl ''invalid URL escape''\<rparr> \<noteq> [WriteHeader UnauthorizedError]"
  by (simp add: doHandleImages_def authenticate_def sendResponse_def)

text \<open>
  C5, amended. For every DELETE, POST or PUT request without credentials, the server
  answers with the bare status \<^verbatim>\<open>UnauthorizedError\<close> and no body when the query string
  parses, and with \<^verbatim>\<open>InternalError\<close> (\<^verbatim>\<open>Failed to parse query\<close>) when it does not; in both
  cases no operation handler is called.
\<close>

theorem anonymous_mutation_rejected:
  assumes "BasicAuth r = None" and "Method r \<in> {''DELETE'', ''POST'', ''PUT''}"
  shows
    "doHandleImages configuration stat r =
       (case Query r of
          Inl err \<Rightarrow>
            sendResponse InternalError (errorBody ''InternalError'' ''Failed to parse query'')
        | Inr parameters \<Rightarrow> [WriteHeader UnauthorizedError]) \<and>
     Call h path \<notin> set (doHandleImages configuration stat r)"
  using assms
  by (auto simp: doHandleImages_def authenticate_def sendResponse_def errorBody_def
      split: sum.splits)

theorem anonymous_mutation_rejected_witness:
  "BasicAuth \<lparr>Method = ''POST'', Path = ''/images'', BasicAuth = None, Query = Inr Map.empty\<rparr>
     = None \<and>
   Method \<lparr>Method = ''POST'', Path = ''/images'', BasicAuth = None, Query = Inr Map.empty\<rparr>
     \<in> {''DELETE'', ''POST'', ''PUT''} \<and>
   doHandleImages (confOf [userA]) statPresent
     \<lparr>Method = ''POST'', Path = ''/images'', BasicAuth = None, Query = Inr Map.empty\<rparr> =
     [WriteHeader UnauthorizedError] \<and>
   Call CreateImage ''/data'' \<notin> set
     (doHandleImages (confOf [userA]) statPresent
        \<lparr>Method = ''POST'', Path = ''/images'', BasicAuth = None, Query = Inr Map.empty\<rparr>)"
  using anonymous_mutation_rejected [of
      "\<lparr>Method = ''POST'', Path = ''/images'', BasicAuth = None, Query = Inr Map.empty\<rparr>"
      "confOf [userA]" statPresent CreateImage "''/data''"]
  by simp

section \<open>The claims about routing\<close>

text \<open>
  C4, as stated, fails: authentication and query parsing come before the GET routing. A GET
  for a path that parses and exists is answered with \<^verbatim>\<open>UnauthorizedError\<close> when it is sent
  with a wrong password, and with \<^verbatim>\<open>InternalError\<close> when its query does not parse (the raw
  query \<^verbatim>\<open>%zz\<close>), not with \<^verbatim>\<open>ResourceNotFound\<close>.
\<close>

theorem get_wrong_password_counterexample:
  "splitImagesUrl ''/images/u'' = Inr (''u'', '''') \<and> statPresent ''/data/u'' = None \<and>
   doHandleImages (confOf [userA]) statPresent
     \<lparr>Method = ''GET'', Path = ''/images/u'', BasicAuth = Some (''a'', ''wrong''),
      Query = Inr Map.empty\<rparr> =
     Log ''Invalid username password combo for a'' #
     sendResponse UnauthorizedError
       (errorBody ''UnauthorizedError'' ''Invalid username/password combination'') \<and>
   statusOf
     (doHandleImages (confOf [userA]) statPresent
        \<lparr>Method = ''GET'', Path = ''/images/u'', BasicAuth = Some (''a'', ''wrong''),
         Query = Inr Map.empty\<rparr>) = Some UnauthorizedError \<and>
   doHandleImages (confOf [userA]) statPresent
     \<lparr>Method = ''GET'', Path = ''/images/u'', BasicAuth = None,
      Query = Inl ''invalid URL escape''\<rparr> =
     sendResponse InternalError (errorBody ''InternalError'' ''Failed to parse query'') \<and>
   statusOf
     (doHandleImages (confOf [userA]) statPresent
        \<lparr>Method = ''GET'', Path = ''/images/u'', BasicAuth = None,
         Query = Inl ''invalid URL escape''\<rparr>) = Some InternalError"
  by (simp add: doHandleImages_def authenticate_def splitImagesUrl_def sendResponse_def)

text \<open>
  C4, amended. For every request with method GET (or none) to a path on which
  \<open>splitImagesUrl\<close> succeeds: when credentials are supplied and rejected the server answers
  with the structured error \<^verbatim>\<open>UnauthorizedError\<close> or \<^verbatim>\<open>AccountDoesNotExist\<close>; otherwise, when
  the query string does not parse, with \<^verbatim>\<open>InternalError\<close>; otherwise it answers
  \<^verbatim>\<open>ResourceNotFound\<close> when \<^verbatim>\<open>os.Stat\<close> of \<^verbatim>\<open>{datadir}/{uuid}\<close> succeeds, and when the stat
  fails the empty tag goes to \<^verbatim>\<open>GetImage\<close>, \<^verbatim>\<open>/icon\<close> to \<^verbatim>\<open>GetImageIcon\<close>, \<^verbatim>\<open>/file\<close> to
  \<^verbatim>\<open>GetImageFile\<close> and any other tag is \<^verbatim>\<open>ResourceNotFound\<close>. So a handler is called only
  when the stat failed.
\<close>

theorem get_routing_after_guards:
  assumes "Method r = '''' \<or> Method r = ''GET''"
    and "splitImagesUrl (Path r) = Inr (uuid, file)"
  shows
    "doHandleImages configuration stat r =
       (case authenticate configuration r of
          Inl events \<Rightarrow> events
        | Inr authenticated \<Rightarrow>
            (case Query r of
               Inl err \<Rightarrow>
                 sendResponse InternalError (errorBody ''InternalError'' ''Failed to parse query'')
             | Inr parameters \<Rightarrow>
                 (case stat (Datadir configuration @ ''/'' @ uuid) of
                    None \<Rightarrow>
                      sendResponse ResourceNotFound
                        (errorBody ''ResourceNotFound''
                           (''Failed to locate '' @ Datadir configuration @ ''/'' @ uuid @
                            '': <nil>''))
                  | Some err \<Rightarrow>
                      if file = '''' then [Call GetImage (Datadir configuration @ ''/'' @ uuid)]
                      else if file = ''/icon'' then
                        [Call GetImageIcon (Datadir configuration @ ''/'' @ uuid)]
                      else if file = ''/file'' then
                        [Call GetImageFile (Datadir configuration @ ''/'' @ uuid)]
                      else
                        sendResponse ResourceNotFound
                          (errorBody ''ResourceNotFound''
                             ''Requested resource does not exist'')))) \<and>
     (isDelegation (doHandleImages configuration stat r) \<longrightarrow>
        stat (Datadir configuration @ ''/'' @ uuid) \<noteq> None) \<and>
     (isl (authenticate configuration r) \<longrightarrow>
        isStructuredError (doHandleImages configuration stat r) \<and>
        statusOf (doHandleImages configuration stat r) \<in>
          {Some UnauthorizedError, Some AccountDoesNotExist})"
proof (cases "authenticate configuration r")
  case (Inl events)
  from authenticate_Inl(2) [OF Inl] Inl show ?thesis
    by (auto simp: doHandleImages_def isDelegation_def)
next
  case (Inr authenticated)
  show ?thesis
  proof (cases "Query r")
    case (Inl err)
    with Inr show ?thesis
      by (simp add: doHandleImages_def isDelegation_def sendResponse_def)
  next
    case q: (Inr parameters)
    from assms(2) have "Path r \<noteq> ''/images''"
      using splitImagesUrl_not_images by auto
    with assms Inr q show ?thesis
      unfolding doHandleImages_GET [OF Inr q assms(1)]
      by (cases "stat (Datadir configuration @ ''/'' @ uuid)")
        (simp_all add: doHandleGetImages_def Let_def isDelegation_def sendResponse_def
          errorBody_def)
  qed
qed

theorem get_routing_after_guards_witness:
  "splitImagesUrl ''/images/u/icon'' = Inr (''u'', ''/icon'') \<and>
   doHandleImages (confOf [userA]) statPresent
     \<lparr>Method = ''GET'', Path = ''/images/u/icon'', BasicAuth = None, Query = Inr Map.empty\<rparr> =
     sendResponse ResourceNotFound
       (errorBody ''ResourceNotFound'' ''Failed to locate /data/u: <nil>'') \<and>
   doHandleImages (confOf [userA]) statAbsent
     \<lparr>Method = ''GET'', Path = ''/images/u/icon'', BasicAuth = None, Query = Inr Map.empty\<rparr> =
     [Call GetImageIcon ''/data/u''] \<and>
   isDelegation
     (doHandleImages (confOf [userA]) statAbsent
        \<lparr>Method = ''GET'', Path = ''/images/u/icon'', BasicAuth = None,
         Query = Inr Map.empty\<rparr>) \<and>
   statAbsent ''/data/u'' \<noteq> None \<and>
   isl (authenticate (confOf [userA])
     \<lparr>Method = '''', Path = ''/images/u/icon'', BasicAuth = Some (''b'', ''1''),
      Query = Inr Map.empty\<rparr>) \<and>
   statusOf
     (doHandleImages (confOf [userA]) statAbsent
        \<lparr>Method = '''', Path = ''/images/u/icon'', BasicAuth = Some (''b'', ''1''),
         Query = Inr Map.empty\<rparr>) = Some AccountDoesNotExist"
  using get_routing_after_guards [of
      "\<lparr>Method = ''GET'', Path = ''/images/u/icon'', BasicAuth = None, Query = Inr Map.empty\<rparr>"
      "''u''" "''/icon''" "confOf [userA]" statPresent]
    get_routing_after_guards [of
      "\<lparr>Method = ''GET'', Path = ''/images/u/icon'', BasicAuth = None, Query = Inr Map.empty\<rparr>"
      "''u''" "''/icon''" "confOf [userA]" statAbsent]
    get_routing_after_guards [of
      "\<lparr>Method = '''', Path = ''/images/u/icon'', BasicAuth = Some (''b'', ''1''),
        Query = Inr Map.empty\<rparr>"
      "''u''" "''/icon''" "confOf [userA]" statAbsent]
  by (simp add: splitImagesUrl_def authenticate_def isDelegation_def sendResponse_def
      errorBody_def)

text \<open>
  C9, as stated, fails: the query is parsed before the PUT routing. An authenticated PUT
  of \<^verbatim>\<open>/images/u/file\<close> whose query does not parse is answered with \<^verbatim>\<open>InternalError\<close>, and
  \<^verbatim>\<open>AddImageFile\<close> is not called.
\<close>

theorem put_bad_query_counterexample:
  "authenticate (confOf [userA])
     \<lparr>Method = ''PUT'', Path = ''/images/u/file'', BasicAuth = Some (''a'', ''1''),
      Query = Inl ''invalid URL escape''\<rparr> = Inr True \<and>
   splitImagesUrl ''/images/u/file'' = Inr (''u'', ''/file'') \<and>
   doHandleImages (confOf [userA]) statPresent
     \<lparr>Method = ''PUT'', Path = ''/images/u/file'', BasicAuth = Some (''a'', ''1''),
      Query = Inl ''invalid URL escape''\<rparr> =
     sendResponse InternalError (errorBody ''InternalError'' ''Failed to parse query'') \<and>
   doHandleImages (confOf [userA]) statPresent
     \<lparr>Method = ''PUT'', Path = ''/images/u/file'', BasicAuth = Some (''a'', ''1''),
      Query = Inl ''invalid URL escape''\<rparr> \<noteq> [Call AddImageFile ''/data/u'']"
  by (simp add: doHandleImages_def authenticate_def splitImagesUrl_def sendResponse_def)

text \<open>
  C9, amended. For every authenticated PUT request whose query string parses, the server
  answers \<^verbatim>\<open>InvalidParameter\<close> unless the path parses with the subresource \<^verbatim>\<open>/file\<close>, in which
  case it calls \<^verbatim>\<open>AddImageFile\<close> with \<^verbatim>\<open>{datadir}/{uuid}\<close>; when the query string does not parse
  it answers \<^verbatim>\<open>InternalError\<close>.
\<close>

theorem put_routing_after_guards:
  assumes "authenticate configuration r = Inr True" and "Method r = ''PUT''"
  shows
    "doHandleImages configuration stat r =
       (case Query r of
          Inl err \<Rightarrow>
            sendResponse InternalError (errorBody ''InternalError'' ''Failed to parse query'')
        | Inr parameters \<Rightarrow>
            (case splitImagesUrl (Path r) of
               Inl err \<Rightarrow>
                 sendResponse InvalidParameter
                   (errorBody ''InvalidParameter'' ''Failed to decode URL'')
             | Inr (uuid, file) \<Rightarrow>
                 if file = ''/file'' then
                   [Call AddImageFile (Datadir configuration @ ''/'' @ uuid)]
                 else
                   sendResponse InvalidParameter
                     (errorBody ''InvalidParameter'' ''Failed to decode URL'')))"
proof (cases "Query r")
  case (Inl err)
  with assms show ?thesis by (simp add: doHandleImages_def)
next
  case q: (Inr parameters)
  show ?thesis
    unfolding doHandleImages_PUT [OF assms(1) q assms(2)]
    by (simp add: q doHandlePutImages_def split: sum.split prod.split)
qed

theorem put_routing_after_guards_witness:
  "authenticate (confOf [userA])
     \<lparr>Method = ''PUT'', Path = ''/images/u/file'', BasicAuth = Some (''a'', ''1''),
      Query = Inr Map.empty\<rparr> = Inr True \<and>
   doHandleImages (confOf [userA]) statPresent
     \<lparr>Method = ''PUT'', Path = ''/images/u/file'', BasicAuth = Some (''a'', ''1''),
      Query = Inr Map.empty\<rparr> = [Call AddImageFile ''/data/u''] \<and>
   authenticate (confOf [userA])
     \<lparr>Method = ''PUT'', Path = ''/images/u/icon'', BasicAuth = Some (''a'', ''1''),
      Query = Inr Map.empty\<rparr> = Inr True \<and>
   doHandleImages (confOf [userA]) statPresent
     \<lparr>Method = ''PUT'', Path = ''/images/u/icon'', BasicAuth = Some (''a'', ''1''),
      Query = Inr Map.empty\<rparr> =
     sendResponse InvalidParameter (errorBody ''InvalidParameter'' ''Failed to decode URL'')"
  using put_routing_after_guards [of "confOf [userA]"
      "\<lparr>Method = ''PUT'', Path = ''/images/u/file'', BasicAuth = Some (''a'', ''1''),
        Query = Inr Map.empty\<rparr>" statPresent]
    put_routing_after_guards [of "confOf [userA]"
      "\<lparr>Method = ''PUT'', Path = ''/images/u/icon'', BasicAuth = Some (''a'', ''1''),
        Query = Inr Map.empty\<rparr>" statPresent]
  by (simp add: authenticate_def splitImagesUrl_def)

text \<open>
  C10. A request with a non-empty method other than GET, DELETE, POST and PUT that passes
  authentication (no credentials, or accepted ones) and whose query parses makes
  \<open>doHandleImages\<close> return without any event: no status, no body, no handler call.
\<close>

theorem other_method_no_response:
  assumes "Method r \<noteq> ''''" and "Method r \<notin> {''GET'', ''DELETE'', ''POST'', ''PUT''}"
    and "authenticate configuration r = Inr authenticated" and "Query r = Inr parameters"
  shows "doHandleImages configuration stat r = []"
  using assms by (simp add: doHandleImages_dispatch)

theorem other_method_no_response_witness:
  "Method \<lparr>Method = ''PATCH'', Path = ''/images/u'', BasicAuth = Some (''a'', ''1''),
           Query = Inr Map.empty\<rparr> \<noteq> '''' \<and>
   Method \<lparr>Method = ''PATCH'', Path = ''/images/u'', BasicAuth = Some (''a'', ''1''),
           Query = Inr Map.empty\<rparr> \<notin> {''GET'', ''DELETE'', ''POST'', ''PUT''} \<and>
   authenticate (confOf [userA])
     \<lparr>Method = ''PATCH'', Path = ''/images/u'', BasicAuth = Some (''a'', ''1''),
      Query = Inr Map.empty\<rparr> = Inr True \<and>
   doHandleImages (confOf [userA]) statPresent
     \<lparr>Method = ''PATCH'', Path = ''/images/u'', BasicAuth = Some (''a'', ''1''),
      Query = Inr Map.empty\<rparr> = []"
  using other_method_no_response [of
      "\<lparr>Method = ''PATCH'', Path = ''/images/u'', BasicAuth = Some (''a'', ''1''),
        Query = Inr Map.empty\<rparr>" "confOf [userA]" True Map.empty statPresent]
  by (simp add: authenticate_def)

section \<open>The claims about the action resolver\<close>

text \<open>
  C2. The claim is that an authenticated POST to an existing \<^verbatim>\<open>/images/{uuid}\<close> with
  \<^verbatim>\<open>action=export\<close> is answered with \<^verbatim>\<open>InsufficientServerVersion\<close> and a message naming the
  action. In the source \<^verbatim>\<open>case "export":\<close> has an empty body and Go does not fall through
  to the reply under \<^verbatim>\<open>case "channel-add":\<close>, so the invocation produces nothing at all.
\<close>

theorem export_action_silent:
  "doHandleImages (confOf [userA]) statPresent
     \<lparr>Method = ''POST'', Path = ''/images/u'', BasicAuth = Some (''a'', ''1''),
      Query = Inr [''action'' \<mapsto> [''export'']]\<rparr> = []"
  by (simp add: doHandleImages_def authenticate_def doHandlePostImages_def splitImagesUrl_def
      switchAction_def)

text \<open>
  C8, as stated, fails: the query is parsed before the POST routing. An authenticated POST
  of an existing \<^verbatim>\<open>/images/u\<close> whose query does not parse (the raw query \<^verbatim>\<open>%zz\<close>, which has no
  \<^verbatim>\<open>action\<close> parameter) is answered with \<^verbatim>\<open>InternalError\<close>, not with \<^verbatim>\<open>InvalidParameter\<close>.
\<close>

theorem post_bad_query_counterexample:
  "authenticate (confOf [userA])
     \<lparr>Method = ''POST'', Path = ''/images/u'', BasicAuth = Some (''a'', ''1''),
      Query = Inl ''invalid URL escape''\<rparr> = Inr True \<and>
   splitImagesUrl ''/images/u'' = Inr (''u'', '''') \<and> statPresent ''/data/u'' = None \<and>
   doHandleImages (confOf [userA]) statPresent
     \<lparr>Method = ''POST'', Path = ''/images/u'', BasicAuth = Some (''a'', ''1''),
      Query = Inl ''invalid URL escape''\<rparr> =
     sendResponse InternalError (errorBody ''InternalError'' ''Failed to parse query'') \<and>
   statusOf
     (doHandleImages (confOf [userA]) statPresent
        \<lparr>Method = ''POST'', Path = ''/images/u'', BasicAuth = Some (''a'', ''1''),
         Query = Inl ''invalid URL escape''\<rparr>) \<noteq> Some InvalidParameter"
  by (simp add: doHandleImages_def authenticate_def splitImagesUrl_def sendResponse_def)

text \<open>
  C8, amended. For every authenticated POST request to a path that parses without
  subresource and exists: when the query string does not parse the server answers
  \<^verbatim>\<open>InternalError\<close>; when it parses and has no \<^verbatim>\<open>action\<close> parameter, \<^verbatim>\<open>InvalidParameter\<close> with
  the message \<^verbatim>\<open>action parameter not specified\<close>; when the parameter is present, its first
  value \<open>a\<close> alone decides, whatever values follow: \<^verbatim>\<open>activate\<close>, \<^verbatim>\<open>update\<close>, \<^verbatim>\<open>disable\<close> and
  \<^verbatim>\<open>enable\<close> call their handlers, \<^verbatim>\<open>channel-add\<close> gets \<^verbatim>\<open>InsufficientServerVersion\<close>, and a value
  that is none of the nine names of the dispatch table gets \<^verbatim>\<open>InvalidParameter\<close> with the
  message \<^verbatim>\<open>Invalid action "a"\<close>, which contains \<open>a\<close>.
\<close>

theorem post_action_after_guards:
  assumes "authenticate configuration r = Inr True" and "Method r = ''POST''"
    and "splitImagesUrl (Path r) = Inr (uuid, '''')"
    and "stat (Datadir configuration @ ''/'' @ uuid) = None"
  shows
    "(Query r = Inl err \<longrightarrow>
        doHandleImages configuration stat r =
          sendResponse InternalError (errorBody ''InternalError'' ''Failed to parse query'')) \<and>
     (Query r = Inr params \<and> params ''action'' = None \<longrightarrow>
        doHandleImages configuration stat r =
          sendResponse InvalidParameter
            (errorBody ''InvalidParameter'' ''action parameter not specified'')) \<and>
     (Query r = Inr params \<and> params ''action'' = Some (a # rest) \<longrightarrow>
        (a \<notin> set [''activate'', ''update'', ''disable'', ''enable'', ''export'', ''copy-remote'',
                   ''import-remote'', ''import'', ''channel-add''] \<longrightarrow>
           doHandleImages configuration stat r =
             sendResponse InvalidParameter
               (errorBody ''InvalidParameter''
                  (''Invalid action '' @ [CHR 0x22] @ a @ [CHR 0x22])) \<and>
           sublist a (''Invalid action '' @ [CHR 0x22] @ a @ [CHR 0x22])) \<and>
        (a = ''activate'' \<longrightarrow>
           doHandleImages configuration stat r =
             [Call ActivateImage (Datadir configuration @ ''/'' @ uuid)]) \<and>
        (a = ''update'' \<longrightarrow>
           doHandleImages configuration stat r =
             [Call UpdateImage (Datadir configuration @ ''/'' @ uuid)]) \<and>
        (a = ''disable'' \<longrightarrow>
           doHandleImages configuration stat r =
             [Call DisableImage (Datadir configuration @ ''/'' @ uuid)]) \<and>
        (a = ''enable'' \<longrightarrow>
           doHandleImages configuration stat r =
             [Call EnableImage (Datadir configuration @ ''/'' @ uuid)]) \<and>
        (a = ''channel-add'' \<longrightarrow>
           doHandleImages configuration stat r =
             sendResponse InsufficientServerVersion
               (errorBody ''InsufficientServerVersion''
                  (''action='' @ [CHR 0x22] @ ''channel-add'' @ [CHR 0x22] @
                   '' is not implemented''))))"
proof (cases "Query r")
  case (Inl e)
  with assms(1) show ?thesis by (simp add: doHandleImages_def)
next
  case q: (Inr parameters)
  have s: "sublist a (''Invalid action '' @ [CHR 0x22] @ a @ [CHR 0x22])"
    by (rule sublist_quoted)
  note p = doHandlePostImages_action [of r uuid stat configuration parameters, OF assms(3,4)]
  from s show ?thesis
    unfolding doHandleImages_POST [OF assms(1) q assms(2)] p
    by (auto simp: q switchAction_def)
qed

theorem post_action_after_guards_witness:
  "authenticate (confOf [userA])
     \<lparr>Method = ''POST'', Path = ''/images/u'', BasicAuth = Some (''a'', ''1''),
      Query = Inr [''action'' \<mapsto> [''bogus'', ''activate'']]\<rparr> = Inr True \<and>
   splitImagesUrl ''/images/u'' = Inr (''u'', '''') \<and> statPresent ''/data/u'' = None \<and>
   doHandleImages (confOf [userA]) statPresent
     \<lparr>Method = ''POST'', Path = ''/images/u'', BasicAuth = Some (''a'', ''1''),
      Query = Inr [''action'' \<mapsto> [''bogus'', ''activate'']]\<rparr> =
     sendResponse InvalidParameter
       (errorBody ''InvalidParameter'' (''Invalid action '' @ [CHR 0x22] @ ''bogus'' @ [CHR 0x22])) \<and>
   sublist ''bogus'' (''Invalid action '' @ [CHR 0x22] @ ''bogus'' @ [CHR 0x22]) \<and>
   doHandleImages (confOf [userA]) statPresent
     \<lparr>Method = ''POST'', Path = ''/images/u'', BasicAuth = Some (''a'', ''1''),
      Query = Inr [''action'' \<mapsto> [''activate'', ''bogus'']]\<rparr> =
     [Call ActivateImage ''/data/u''] \<and>
   doHandleImages (confOf [userA]) statPresent
     \<lparr>Method = ''POST'', Path = ''/images/u'', BasicAuth = Some (''a'', ''1''),
      Query = Inr Map.empty\<rparr> =
     sendResponse InvalidParameter
       (errorBody ''InvalidParameter'' ''action parameter not specified'') \<and>
   doHandleImages (confOf [userA]) statPresent
     \<lparr>Method = ''POST'', Path = ''/images/u'', BasicAuth = Some (''a'', ''1''),
      Query = Inl ''unexpected''\<rparr> =
     sendResponse InternalError (errorBody ''InternalError'' ''Failed to parse query'')"
  using post_action_after_guards [of "confOf [userA]"
      "\<lparr>Method = ''POST'', Path = ''/images/u'', BasicAuth = Some (''a'', ''1''),
        Query = Inr [''action'' \<mapsto> [''bogus'', ''activate'']]\<rparr>"
      "''u''" statPresent "''x''" "[''action'' \<mapsto> [''bogus'', ''activate'']]"
      "''bogus''" "[''activate'']"]
    post_action_after_guards [of "confOf [userA]"
      "\<lparr>Method = ''POST'', Path = ''/images/u'', BasicAuth = Some (''a'', ''1''),
        Query = Inr [''action'' \<mapsto> [''activate'', ''bogus'']]\<rparr>"
      "''u''" statPresent "''x''" "[''action'' \<mapsto> [''activate'', ''bogus'']]"
      "''activate''" "[''bogus'']"]
    post_action_after_guards [of "confOf [userA]"
      "\<lparr>Method = ''POST'', Path = ''/images/u'', BasicAuth = Some (''a'', ''1''),
        Query = Inr Map.empty\<rparr>"
      "''u''" statPresent "''x''" Map.empty]
    post_action_after_guards [of "confOf [userA]"
      "\<lparr>Method = ''POST'', Path = ''/images/u'', BasicAuth = Some (''a'', ''1''),
        Query = Inl ''unexpected''\<rparr>"
      "''u''" statPresent "''unexpected''"]
  by (simp add: authenticate_def splitImagesUrl_def)

section \<open>The claim about exactly one response\<close>

text \<open>
  C3, as stated, fails: an anonymous DELETE is answered with the bare status
  \<^verbatim>\<open>UnauthorizedError\<close>, which is neither a delegation nor a structured error response, and
  a HEAD request that passes authentication and query parsing gets no response at all.
\<close>

theorem not_one_structured_response_counterexample:
  "doHandleImages (confOf [userA]) statPresent
     \<lparr>Method = ''DELETE'', Path = ''/images/u'', BasicAuth = None, Query = Inr Map.empty\<rparr> =
     [WriteHeader UnauthorizedError] \<and>
   \<not> isDelegation [WriteHeader UnauthorizedError] \<and>
   \<not> isStructuredError [WriteHeader UnauthorizedError] \<and>
   responses
     (doHandleImages (confOf [userA]) statPresent
        \<lparr>Method = ''HEAD'', Path = ''/images/u'', BasicAuth = None, Query = Inr Map.empty\<rparr>) = 0"
  by (simp add: doHandleImages_def authenticate_def isDelegation_def isStructuredError_def
      responses_def)

text \<open>
  C3, amended. No request gets more than one response. A request whose method is empty,
  GET, DELETE, POST or PUT gets exactly one response: a delegation to an operation handler,
  a structured error response, or the bare status \<^verbatim>\<open>UnauthorizedError\<close>; the bare status is
  written exactly when the request is a DELETE, POST or PUT without credentials whose query
  parses. A request with any other method gets one structured error response when its
  authentication or its query parsing fails, and nothing otherwise. Left out are the
  requests that enter the inner switch of the POST routing with the first \<^verbatim>\<open>action\<close> value
  \<^verbatim>\<open>export\<close>, \<^verbatim>\<open>copy-remote\<close>, \<^verbatim>\<open>import-remote\<close> or \<^verbatim>\<open>import\<close>, or with an empty value list (which
  \<^verbatim>\<open>url.ParseQuery\<close> does not produce).
\<close>

theorem at_most_one_response:
  "responses (doHandleImages configuration stat r) \<le> 1 \<and>
   (Method r \<in> {'''', ''GET'', ''DELETE'', ''POST'', ''PUT''} \<and>
    reachedAction configuration stat r \<noteq> Some [] \<and> \<not> silentPost configuration stat r \<longrightarrow>
      responses (doHandleImages configuration stat r) = 1 \<and>
      (isDelegation (doHandleImages configuration stat r) \<or>
       isStructuredError (doHandleImages configuration stat r) \<or>
       doHandleImages configuration stat r = [WriteHeader UnauthorizedError])) \<and>
   (doHandleImages configuration stat r = [WriteHeader UnauthorizedError] \<longleftrightarrow>
      BasicAuth r = None \<and> Method r \<in> {''DELETE'', ''POST'', ''PUT''} \<and> \<not> isl (Query r)) \<and>
   (Method r \<notin> {'''', ''GET'', ''DELETE'', ''POST'', ''PUT''} \<longrightarrow>
      (if isl (authenticate configuration r) \<or> isl (Query r)
       then isStructuredError (doHandleImages configuration stat r) \<and>
            responses (doHandleImages configuration stat r) = 1
       else doHandleImages configuration stat r = []))"
proof (intro conjI impI)
  show "responses (doHandleImages configuration stat r) \<le> 1"
    by (rule doHandleImages_responses_le)
next
  assume h: "Method r \<in> {'''', ''GET'', ''DELETE'', ''POST'', ''PUT''} \<and>
    reachedAction configuration stat r \<noteq> Some [] \<and> \<not> silentPost configuration stat r"
  then have one: "responses (doHandleImages configuration stat r) = 1 \<and>
      (isDelegation (doHandleImages configuration stat r) \<or>
       isStructuredError (doHandleImages configuration stat r) \<or>
       doHandleImages configuration stat r = [WriteHeader UnauthorizedError])"
    using doHandleImages_one_response [of r configuration stat] by blast
  from one show "responses (doHandleImages configuration stat r) = 1" ..
  from one show "isDelegation (doHandleImages configuration stat r) \<or>
       isStructuredError (doHandleImages configuration stat r) \<or>
       doHandleImages configuration stat r = [WriteHeader UnauthorizedError]" ..
next
  show "doHandleImages configuration stat r = [WriteHeader UnauthorizedError] \<longleftrightarrow>
      BasicAuth r = None \<and> Method r \<in> {''DELETE'', ''POST'', ''PUT''} \<and> \<not> isl (Query r)"
    by (rule doHandleImages_bare_iff)
next
  assume "Method r \<notin> {'''', ''GET'', ''DELETE'', ''POST'', ''PUT''}"
  then show "if isl (authenticate configuration r) \<or> isl (Query r)
       then isStructuredError (doHandleImages configuration stat r) \<and>
            responses (doHandleImages configuration stat r) = 1
       else doHandleImages configuration stat r = []"
    by (rule doHandleImages_other_methods)
qed

theorem at_most_one_response_witness:
  "Method \<lparr>Method = ''POST'', Path = ''/images/u'', BasicAuth = Some (''a'', ''1''),
           Query = Inr [''action'' \<mapsto> [''activate'']]\<rparr>
     \<in> {'''', ''GET'', ''DELETE'', ''POST'', ''PUT''} \<and>
   reachedAction (confOf [userA]) statPresent
     \<lparr>Method = ''POST'', Path = ''/images/u'', BasicAuth = Some (''a'', ''1''),
      Query = Inr [''action'' \<mapsto> [''activate'']]\<rparr> = Some [''activate''] \<and>
   \<not> silentPost (confOf [userA]) statPresent
     \<lparr>Method = ''POST'', Path = ''/images/u'', BasicAuth = Some (''a'', ''1''),
      Query = Inr [''action'' \<mapsto> [''activate'']]\<rparr> \<and>
   responses
     (doHandleImages (confOf [userA]) statPresent
        \<lparr>Method = ''POST'', Path = ''/images/u'', BasicAuth = Some (''a'', ''1''),
         Query = Inr [''action'' \<mapsto> [''activate'']]\<rparr>) = 1 \<and>
   doHandleImages (confOf [userA]) statPresent
        \<lparr>Method = ''POST'', Path = ''/images/u'', BasicAuth = Some (''a'', ''1''),
         Query = Inr [''action'' \<mapsto> [''activate'']]\<rparr> = [Call ActivateImage ''/data/u''] \<and>
   \<not> silentPost (confOf [userA]) statPresent
     \<lparr>Method = ''POST'', Path = ''/images/u'', BasicAuth = None,
      Query = Inr [''action'' \<mapsto> [''export'']]\<rparr> \<and>
   doHandleImages (confOf [userA]) statPresent
     \<lparr>Method = ''POST'', Path = ''/images/u'', BasicAuth = None,
      Query = Inr [''action'' \<mapsto> [''export'']]\<rparr> = [WriteHeader UnauthorizedError] \<and>
   Method \<lparr>Method = ''OPTIONS'', Path = ''/images/u'', BasicAuth = None,
           Query = Inr Map.empty\<rparr> \<notin> {'''', ''GET'', ''DELETE'', ''POST'', ''PUT''} \<and>
   doHandleImages (confOf [userA]) statPresent
        \<lparr>Method = ''OPTIONS'', Path = ''/images/u'', BasicAuth = None,
         Query = Inr Map.empty\<rparr> = []"
  using at_most_one_response [of "confOf [userA]" statPresent
      "\<lparr>Method = ''POST'', Path = ''/images/u'', BasicAuth = Some (''a'', ''1''),
         Query = Inr [''action'' \<mapsto> [''activate'']]\<rparr>"]
    at_most_one_response [of "confOf [userA]" statPresent
      "\<lparr>Method = ''POST'', Path = ''/images/u'', BasicAuth = None,
         Query = Inr [''action'' \<mapsto> [''export'']]\<rparr>"]
    at_most_one_response [of "confOf [userA]" statPresent
      "\<lparr>Method = ''OPTIONS'', Path = ''/images/u'', BasicAuth = None,
         Query = Inr Map.empty\<rparr>"]
  by (simp add: reachedAction_def postAction_def silentPost_def doHandleImages_def
      authenticate_def doHandlePostImages_def splitImagesUrl_def switchAction_def)

end
